theory Spec2Isabelle
  imports Complex_Main
begin

section \<open>Python values and the operations main.py applies to them\<close>

text \<open>
  Every value that main.py handles comes out of a JSON parser (the webhook body, the
  body of a response of the remote API) or is built from such values. An object is an
  association list read with \<open>map_of\<close>; a parser yields every key once.
  Python's \<open>None\<close> is \<open>JNull\<close>. A number is an \<open>int\<close> or, when it has
  a fraction or an exponent, a \<open>JFloat\<close>; the code only ever tests numbers for truth.

  The calls of \<open>print\<close> are left out: they format values that came out of the
  parser and touch neither the requests sent nor the reply. A call that is made only
  to print (\<open>len(subitems)\<close> at line 239, \<open>.get('id')\<close> at lines 364 and 390) is
  kept, since it can raise.
\<close>

datatype json =
    JNull
  | JBool bool
  | JInt int
  | JFloat rat
  | JStr string
  | JArr "json list"
  | JObj "(string \<times> json) list"

text \<open>The exceptions that can occur in main.py. \<open>HTTPException\<close> carries
  \<open>status_code\<close> and \<open>detail\<close>; it derives from \<open>Exception\<close>.\<close>

datatype exn =
    HTTPException int string
  | AttributeError
  | TypeError
  | IndexError
  | KeyError

text \<open>A computation that may raise: \<open>Inl\<close> is the exception raised.\<close>

definition and_then :: "exn + 'a \<Rightarrow> ('a \<Rightarrow> exn + 'b) \<Rightarrow> exn + 'b" where
  "and_then m f = (case m of Inl e \<Rightarrow> Inl e | Inr v \<Rightarrow> f v)"

fun map_res :: "('a \<Rightarrow> exn + 'b) \<Rightarrow> 'a list \<Rightarrow> exn + 'b list" where
  "map_res f [] = Inr []"
| "map_res f (x # xs) = and_then (f x) (\<lambda>y. and_then (map_res f xs) (\<lambda>ys. Inr (y # ys)))"

text \<open>Truth value testing: \<open>if x\<close>, \<open>not x\<close>, \<open>x or y\<close>, \<open>all([...])\<close>.\<close>

fun truthy :: "json \<Rightarrow> bool" where
  "truthy JNull = False"
| "truthy (JBool b) = b"
| "truthy (JInt i) = (i \<noteq> 0)"
| "truthy (JFloat r) = (r \<noteq> 0)"
| "truthy (JStr s) = (s \<noteq> [])"
| "truthy (JArr xs) = (xs \<noteq> [])"
| "truthy (JObj kvs) = (kvs \<noteq> [])"

text \<open>\<open>d.get(k, default)\<close>: only a dict has the method.\<close>

fun py_get :: "json \<Rightarrow> string \<Rightarrow> json \<Rightarrow> exn + json" where
  "py_get (JObj kvs) k dflt = Inr (case map_of kvs k of None \<Rightarrow> dflt | Some v \<Rightarrow> v)"
| "py_get _ k dflt = Inl AttributeError"

fun is_prefix :: "'a list \<Rightarrow> 'a list \<Rightarrow> bool" where
  "is_prefix [] ys = True"
| "is_prefix (x # xs) [] = False"
| "is_prefix (x # xs) (y # ys) = (x = y \<and> is_prefix xs ys)"

fun is_substring :: "'a list \<Rightarrow> 'a list \<Rightarrow> bool" where
  "is_substring xs [] = (xs = [])"
| "is_substring xs (y # ys) = (is_prefix xs (y # ys) \<or> is_substring xs ys)"

text \<open>\<open>"k" in x\<close> for a string k: a key of a dict, an element of a list, a substring
  of a string; any other operand is not a container.\<close>

fun py_contains :: "string \<Rightarrow> json \<Rightarrow> exn + bool" where
  "py_contains k (JObj kvs) = Inr (map_of kvs k \<noteq> None)"
| "py_contains k (JArr xs) = Inr (JStr k \<in> set xs)"
| "py_contains k (JStr s) = Inr (is_substring k s)"
| "py_contains k _ = Inl TypeError"

text \<open>The elements a \<open>for\<close> loop or a comprehension runs over: a dict gives its keys,
  a string its characters.\<close>

fun py_iter :: "json \<Rightarrow> exn + json list" where
  "py_iter (JArr xs) = Inr xs"
| "py_iter (JObj kvs) = Inr (map (\<lambda>kv. JStr (fst kv)) kvs)"
| "py_iter (JStr s) = Inr (map (\<lambda>c. JStr [c]) s)"
| "py_iter _ = Inl TypeError"

text \<open>\<open>x[0]\<close>: the keys of a parsed object are strings, so \<open>0\<close> is never one.\<close>

fun py_index0 :: "json \<Rightarrow> exn + json" where
  "py_index0 (JArr []) = Inl IndexError"
| "py_index0 (JArr (x # xs)) = Inr x"
| "py_index0 (JStr []) = Inl IndexError"
| "py_index0 (JStr (c # cs)) = Inr (JStr [c])"
| "py_index0 (JObj kvs) = Inl KeyError"
| "py_index0 _ = Inl TypeError"

fun py_len :: "json \<Rightarrow> exn + nat" where
  "py_len (JArr xs) = Inr (length xs)"
| "py_len (JStr s) = Inr (length s)"
| "py_len (JObj kvs) = Inr (length kvs)"
| "py_len _ = Inl TypeError"

text \<open>\<open>sep.join(xs)\<close>: every element has to be a string.\<close>

fun py_join :: "string \<Rightarrow> json list \<Rightarrow> exn + string" where
  "py_join sep [] = Inr []"
| "py_join sep [JStr s] = Inr s"
| "py_join sep (JStr s # x # xs) = and_then (py_join sep (x # xs)) (\<lambda>r. Inr (s @ sep @ r))"
| "py_join sep (_ # xs) = Inl TypeError"

text \<open>\<open>next((col for col in cols if p(col)), None)\<close>: the first element that passes
  the test; the test is run on the elements before it and may raise there.\<close>

fun py_next :: "(json \<Rightarrow> exn + bool) \<Rightarrow> json list \<Rightarrow> exn + json" where
  "py_next p [] = Inr JNull"
| "py_next p (x # xs) = and_then (p x) (\<lambda>b. if b then Inr x else py_next p xs)"

section \<open>The remote API client\<close>

text \<open>
  The five GraphQL documents of main.py. The first is built with \<open>%\<close> from the item
  id (lines 188 to 203); the others are literals, and the two mutations both call
  \<open>change_column_value\<close>. A request is a document and its \<open>variables\<close>
  (\<open>None\<close> when the caller passes none).
\<close>

datatype query =
    ItemsQuery json
  | GetParentItem
  | GetSubItem
  | ChangeColumnValue
  | UpdateSubitemDate

type_synonym request = "query \<times> json option"

text \<open>What \<open>requests.post\<close> gives back: \<open>status_code\<close>, \<open>text\<close>, and the
  result of \<open>response.json()\<close>, which is the message of the decoding error when the
  body is not JSON.\<close>

record response =
  status_code :: int
  resp_text :: string
  resp_json :: "string + json"

datatype post_result = RequestException string | Response response

text \<open>
  What the program reads from outside itself: the environment variable, the remote
  service (its answer may depend on the requests it has received before), the clock,
  and the library's rendering of an exception.
\<close>

record env =
  MONDAY_API_KEY :: "string option"
  requests_post :: "request list \<Rightarrow> request \<Rightarrow> post_result"
  today_year :: nat
  str_exn :: "exn \<Rightarrow> string"
  format_exc :: "exn \<Rightarrow> string"
  now_isoformat :: string

text \<open>\<open>not MONDAY_API_KEY\<close> is false unless the variable is set to a non-empty string.\<close>

definition key_configured :: "env \<Rightarrow> bool" where
  "key_configured env = (case MONDAY_API_KEY env of None \<Rightarrow> False | Some k \<Rightarrow> k \<noteq> [])"

text \<open>Line 78: the comprehension over the \<open>errors\<close> entry.\<close>

definition error_messages :: "json list \<Rightarrow> exn + json list" where
  "error_messages errors = map_res (\<lambda>error. py_get error ''message'' (JStr ''Unknown error'')) errors"

text \<open>Lines 69 to 83. A body that is not JSON makes \<open>response.json()\<close> raise a
  \<open>RequestException\<close>, which line 84 catches.\<close>

definition check_response :: "response \<Rightarrow> exn + json" where
  "check_response r =
     (if status_code r \<noteq> 200
      then Inl (HTTPException (status_code r) (''Error from Monday.com API: '' @ resp_text r))
      else case resp_json r of
             Inl msg \<Rightarrow> Inl (HTTPException 500 (''Request to Monday.com API failed: '' @ msg))
           | Inr response_json \<Rightarrow>
               and_then (py_contains ''errors'' response_json) (\<lambda>has_errors.
                 if has_errors
                 then and_then (py_get response_json ''errors'' (JArr [])) (\<lambda>errors.
                      and_then (py_iter errors) (\<lambda>errs.
                      and_then (error_messages errs) (\<lambda>msgs.
                      and_then (py_join '', '' msgs) (\<lambda>joined.
                        Inl (HTTPException 400 (''Monday.com API returned errors: '' @ joined))))))
                 else Inr response_json))"

text \<open>Lines 46 to 87. The trace is the list of requests sent so far, oldest first;
  a request is sent only when the key is configured.\<close>

definition execute_monday_query ::
    "env \<Rightarrow> query \<Rightarrow> json option \<Rightarrow> request list \<Rightarrow> (exn + json) \<times> request list" where
  "execute_monday_query env q variables tr =
     (if key_configured env
      then (case requests_post env tr (q, variables) of
              RequestException msg \<Rightarrow>
                (Inl (HTTPException 500 (''Request to Monday.com API failed: '' @ msg)),
                 tr @ [(q, variables)])
            | Response r \<Rightarrow> (check_response r, tr @ [(q, variables)]))
      else (Inl (HTTPException 500 ''Monday.com API key not configured''), tr))"

section \<open>Parent to subitems: \<open>process_date_automation\<close>\<close>

text \<open>Line 179: \<open>event.get("pulseId") or event.get("pulse_id") or event.get("itemId")\<close>.\<close>

definition item_id_of :: "json \<Rightarrow> exn + json" where
  "item_id_of event =
     and_then (py_get event ''pulseId'' JNull) (\<lambda>a.
       if truthy a then Inr a
       else and_then (py_get event ''pulse_id'' JNull) (\<lambda>b.
         if truthy b then Inr b else py_get event ''itemId'' JNull))"

text \<open>Lines 208 to 220: the first item of the result and the first of its column
  values. \<open>None\<close> is one of the two early returns.\<close>

definition parent_date_column :: "json \<Rightarrow> exn + (json \<times> json) option" where
  "parent_date_column result =
     and_then (py_get result ''data'' (JObj [])) (\<lambda>data.
     and_then (py_get data ''items'' (JArr [])) (\<lambda>items.
       if truthy items
       then and_then (py_index0 items) (\<lambda>parent.
            and_then (py_get parent ''name'' (JStr ''Unknown'')) (\<lambda>parent_name.
            and_then (py_get parent ''column_values'' JNull) (\<lambda>cv.
            and_then (if truthy cv
                      then and_then (py_get parent ''column_values'' (JArr [])) py_index0
                      else Inr JNull) (\<lambda>date_column.
              if truthy date_column then Inr (Some (parent, date_column)) else Inr None))))
       else Inr None))"

text \<open>Lines 251 to 253 of the loop body.\<close>

definition subitem_ids :: "json \<Rightarrow> exn + json \<times> json" where
  "subitem_ids subitem =
     and_then (py_get subitem ''id'' JNull) (\<lambda>subitem_id.
     and_then (py_get subitem ''name'' (JStr ''Unknown'')) (\<lambda>subitem_name.
     and_then (py_get subitem ''board'' (JObj [])) (\<lambda>board.
     and_then (py_get board ''id'' JNull) (\<lambda>subitem_board_id.
       Inr (subitem_id, subitem_board_id)))))"

text \<open>Lines 258 to 263.\<close>

definition change_variables :: "json \<Rightarrow> json \<Rightarrow> json \<Rightarrow> json" where
  "change_variables subitem_board_id subitem_id date_value =
     JObj [(''boardId'', subitem_board_id), (''itemId'', subitem_id),
           (''columnId'', JStr ''date_mkn2am1b''), (''value'', date_value)]"

text \<open>Lines 250 to 269: the loop. An exception of the mutation is caught at line 268
  and the loop goes on; an exception of lines 251 to 253 leaves the loop.\<close>

fun update_subitems ::
    "env \<Rightarrow> json \<Rightarrow> json list \<Rightarrow> request list \<Rightarrow> (exn + unit) \<times> request list" where
  "update_subitems env date_value [] tr = (Inr (), tr)"
| "update_subitems env date_value (subitem # rest) tr =
     (case subitem_ids subitem of
        Inl e \<Rightarrow> (Inl e, tr)
      | Inr (subitem_id, subitem_board_id) \<Rightarrow>
          if truthy subitem_id \<and> truthy subitem_board_id
          then update_subitems env date_value rest
                 (snd (execute_monday_query env ChangeColumnValue
                         (Some (change_variables subitem_board_id subitem_id date_value)) tr))
          else update_subitems env date_value rest tr)"

text \<open>Lines 222 to 269, from the date column on. Lines 229 and 235 return early;
  line 239 takes \<open>len(subitems)\<close>.\<close>

definition sync_date_column ::
    "env \<Rightarrow> json \<Rightarrow> json \<Rightarrow> request list \<Rightarrow> (exn + unit) \<times> request list" where
  "sync_date_column env parent date_column tr =
     (case py_get date_column ''value'' JNull of
        Inl e \<Rightarrow> (Inl e, tr)
      | Inr date_value \<Rightarrow>
     (case py_get date_column ''text'' (JStr []) of
        Inl e \<Rightarrow> (Inl e, tr)
      | Inr date_text \<Rightarrow>
          if truthy date_value \<and> date_value \<noteq> JStr ''null''
          then (case py_get parent ''subitems'' (JArr []) of
                  Inl e \<Rightarrow> (Inl e, tr)
                | Inr subitems \<Rightarrow>
                    if truthy subitems
                    then (case and_then (py_len subitems) (\<lambda>n. py_iter subitems) of
                            Inl e \<Rightarrow> (Inl e, tr)
                          | Inr subs \<Rightarrow> update_subitems env date_value subs tr)
                    else (Inr (), tr))
          else (Inr (), tr)))"

text \<open>Lines 206 to 269: the body of the \<open>try\<close>.\<close>

definition process_date_try ::
    "env \<Rightarrow> json \<Rightarrow> request list \<Rightarrow> (exn + unit) \<times> request list" where
  "process_date_try env item_id tr =
     (case execute_monday_query env (ItemsQuery item_id) None tr of
        (Inl e, tr1) \<Rightarrow> (Inl e, tr1)
      | (Inr result, tr1) \<Rightarrow>
          (case parent_date_column result of
             Inl e \<Rightarrow> (Inl e, tr1)
           | Inr None \<Rightarrow> (Inr (), tr1)
           | Inr (Some (parent, date_column)) \<Rightarrow> sync_date_column env parent date_column tr1))"

text \<open>Lines 173 to 272. Lines 178 and 179 are outside the \<open>try\<close>; line 271 catches
  whatever the body raises and the function returns.\<close>

definition process_date_automation ::
    "env \<Rightarrow> json \<Rightarrow> request list \<Rightarrow> (exn + unit) \<times> request list" where
  "process_date_automation env webhook_data tr =
     (case and_then (py_get webhook_data ''event'' (JObj [])) item_id_of of
        Inl e \<Rightarrow> (Inl e, tr)
      | Inr item_id \<Rightarrow>
          if truthy item_id
          then (Inr (), snd (process_date_try env item_id tr))
          else (Inr (), tr))"

section \<open>Subitem from parent: \<open>sync_subitem_with_parent\<close>\<close>

text \<open>Lines 285 to 288.\<close>

definition required_ids :: "json \<Rightarrow> exn + json \<times> json \<times> json \<times> json" where
  "required_ids event =
     and_then (and_then (py_get event ''itemId'' JNull) (\<lambda>a.
                 if truthy a then Inr a else py_get event ''pulseId'' JNull)) (\<lambda>subitem_id.
     and_then (py_get event ''boardId'' JNull) (\<lambda>subitem_board_id.
     and_then (py_get event ''parentItemId'' JNull) (\<lambda>parent_item_id.
     and_then (py_get event ''parentItemBoardId'' JNull) (\<lambda>parent_board_id.
       Inr (subitem_id, subitem_board_id, parent_item_id, parent_board_id)))))"

text \<open>Lines 352 to 358 and 378 to 384: the column with the known id, else the first
  column of type date, else \<open>None\<close>.\<close>

definition find_date_col :: "string \<Rightarrow> json \<Rightarrow> exn + json" where
  "find_date_col column_id item =
     and_then (py_get item ''column_values'' (JArr [])) (\<lambda>cvs.
     and_then (py_iter cvs) (\<lambda>cols.
     and_then (py_next (\<lambda>col. and_then (py_get col ''id'' JNull)
                                 (\<lambda>i. Inr (i = JStr column_id))) cols) (\<lambda>by_id.
       if truthy by_id then Inr by_id
       else and_then (py_get item ''column_values'' (JArr [])) (\<lambda>cvs2.
            and_then (py_iter cvs2) (\<lambda>cols2.
              py_next (\<lambda>col. and_then (py_get col ''type'' JNull)
                                (\<lambda>t. Inr (t = JStr ''date''))) cols2)))))"

text \<open>Lines 340 to 348 and 367 to 374: the first item of a lookup's result.\<close>

definition first_item :: "json \<Rightarrow> exn + json option" where
  "first_item result =
     and_then (py_get result ''data'' (JObj [])) (\<lambda>data.
     and_then (py_get data ''items'' (JArr [])) (\<lambda>items.
       if truthy items
       then and_then (py_index0 items) (\<lambda>item.
            and_then (py_get item ''name'' (JStr ''Unknown'')) (\<lambda>name. Inr (Some item)))
       else Inr None))"

text \<open>Lines 340 to 390: the parent's date column and the subitem's date column.
  \<open>None\<close> is one of the four early returns.\<close>

definition located_columns :: "json \<Rightarrow> json \<Rightarrow> exn + (json \<times> json) option" where
  "located_columns parent_result subitem_result =
     and_then (first_item parent_result) (\<lambda>p.
       case p of
         None \<Rightarrow> Inr None
       | Some parent_item \<Rightarrow>
           and_then (find_date_col ''date7'' parent_item) (\<lambda>parent_date_col.
             if truthy parent_date_col
             then and_then (py_get parent_date_col ''id'' JNull) (\<lambda>shown.
                  and_then (first_item subitem_result) (\<lambda>s.
                    case s of
                      None \<Rightarrow> Inr None
                    | Some subitem \<Rightarrow>
                        and_then (find_date_col ''date_mkn2am1b'' subitem) (\<lambda>subitem_date_col.
                          if truthy subitem_date_col
                          then and_then (py_get subitem_date_col ''id'' JNull) (\<lambda>shown2.
                                 Inr (Some (parent_date_col, subitem_date_col)))
                          else Inr None)))
             else Inr None))"

text \<open>A number in decimal, without padding.\<close>

fun decimal :: "nat \<Rightarrow> string" where
  "decimal n =
     (if n < 10 then [''0123456789'' ! n]
      else decimal (n div 10) @ [''0123456789'' ! (n mod 10)])"

declare decimal.simps [simp del]

text \<open>Line 411: \<open>strftime("%Y-%m-%d")\<close> of March 11 of a year. \<open>%Y\<close> is the year
  in decimal as the C library writes it, without padding: four digits for the years
  1000 to 9999, the last year a \<open>datetime\<close> has.\<close>

definition strftime_march_11 :: "nat \<Rightarrow> string" where
  "strftime_march_11 y = decimal y @ ''-03-11''"

text \<open>Line 412: \<open>json.dumps({"date": march_11})\<close>, the text of a JSON object.\<close>

definition json_dumps_date :: "string \<Rightarrow> string" where
  \<open>json_dumps_date d = ''{"date": "'' @ d @ ''"}''\<close>

text \<open>Lines 407 to 413.\<close>

definition with_fallback :: "env \<Rightarrow> json \<Rightarrow> json" where
  "with_fallback env parent_value =
     (if truthy parent_value \<and> parent_value \<noteq> JStr ''null''
      then parent_value
      else JStr (json_dumps_date (strftime_march_11 (today_year env))))"

text \<open>Lines 427 to 432.\<close>

definition update_variables :: "json \<Rightarrow> json \<Rightarrow> json \<Rightarrow> json \<Rightarrow> json" where
  "update_variables subitem_board_id subitem_id column_id parent_value =
     JObj [(''boardId'', subitem_board_id), (''itemId'', subitem_id),
           (''columnId'', column_id), (''value'', parent_value)]"

text \<open>Lines 338 to 439: the body of the \<open>try\<close>. Lines 396 to 404 only print, inside
  a \<open>try\<close> of their own with a bare \<open>except\<close>. Line 436 catches what lines 427 to
  435 raise.\<close>

definition sync_try ::
    "env \<Rightarrow> json \<Rightarrow> json \<Rightarrow> json \<Rightarrow> json \<Rightarrow> request list \<Rightarrow> (exn + unit) \<times> request list" where
  "sync_try env subitem_id subitem_board_id parent_result subitem_result tr =
     (case located_columns parent_result subitem_result of
        Inl e \<Rightarrow> (Inl e, tr)
      | Inr None \<Rightarrow> (Inr (), tr)
      | Inr (Some (parent_date_col, subitem_date_col)) \<Rightarrow>
          (case py_get parent_date_col ''value'' JNull of
             Inl e \<Rightarrow> (Inl e, tr)
           | Inr parent_value \<Rightarrow>
               if truthy (with_fallback env parent_value)
               then (case py_get subitem_date_col ''id'' JNull of
                       Inl e \<Rightarrow> (Inr (), tr)
                     | Inr column_id \<Rightarrow>
                         (Inr (), snd (execute_monday_query env UpdateSubitemDate
                                         (Some (update_variables subitem_board_id subitem_id column_id
                                                  (with_fallback env parent_value))) tr)))
               else (Inr (), tr)))"

text \<open>Lines 274 to 443. The two lookups of lines 315 and 336 are outside the
  \<open>try\<close> that opens at line 338: what they raise leaves the function.\<close>

definition sync_subitem_with_parent ::
    "env \<Rightarrow> json \<Rightarrow> request list \<Rightarrow> (exn + unit) \<times> request list" where
  "sync_subitem_with_parent env webhook_data tr =
     (case and_then (py_get webhook_data ''event'' (JObj [])) required_ids of
        Inl e \<Rightarrow> (Inl e, tr)
      | Inr (subitem_id, subitem_board_id, parent_item_id, parent_board_id) \<Rightarrow>
          if truthy subitem_id \<and> truthy subitem_board_id \<and> truthy parent_item_id
               \<and> truthy parent_board_id
          then (case execute_monday_query env GetParentItem
                       (Some (JObj [(''itemId'', parent_item_id)])) tr of
                  (Inl e, tr1) \<Rightarrow> (Inl e, tr1)
                | (Inr parent_result, tr1) \<Rightarrow>
                    (case execute_monday_query env GetSubItem
                            (Some (JObj [(''itemId'', subitem_id)])) tr1 of
                       (Inl e, tr2) \<Rightarrow> (Inl e, tr2)
                     | (Inr subitem_result, tr2) \<Rightarrow>
                         (Inr (), snd (sync_try env subitem_id subitem_board_id
                                         parent_result subitem_result tr2))))
          else (Inr (), tr))"

section \<open>The webhook endpoint\<close>

text \<open>An inbound request, as far as the handler reads it: what \<open>request.json()\<close>
  gives and what \<open>json.loads\<close> gives on the decoded raw body; \<open>Inl\<close> is the message
  of the exception.\<close>

record inbound =
  request_json :: "string + json"
  raw_body_json :: "string + json"

text \<open>Lines 117 to 127.\<close>

definition parse_body :: "inbound \<Rightarrow> exn + json" where
  "parse_body req =
     (case request_json req of
        Inr body \<Rightarrow> Inr body
      | Inl json_error \<Rightarrow>
          (case raw_body_json req of
             Inr body \<Rightarrow> Inr body
           | Inl decode_error \<Rightarrow>
               Inl (HTTPException 400 (''Invalid JSON payload: '' @ json_error))))"

definition success :: json where
  "success = JObj [(''status'', JStr ''success'')]"

text \<open>Lines 166 to 171.\<close>

definition error_reply :: "env \<Rightarrow> exn \<Rightarrow> json" where
  "error_reply env e =
     JObj [(''status'', JStr ''error''), (''error'', JStr (str_exn env e)),
           (''traceback'', JStr (format_exc env e)), (''timestamp'', JStr (now_isoformat env))]"

text \<open>Lines 112 to 158: the body of the \<open>try\<close>. The branches of lines 153 to 156
  only print.\<close>

definition webhook_try ::
    "env \<Rightarrow> inbound \<Rightarrow> request list \<Rightarrow> (exn + json) \<times> request list" where
  "webhook_try env req tr =
     (case parse_body req of
        Inl e \<Rightarrow> (Inl e, tr)
      | Inr body \<Rightarrow>
     (case and_then (py_get body ''event'' (JObj [])) (\<lambda>event. py_get event ''type'' JNull) of
        Inl e \<Rightarrow> (Inl e, tr)
      | Inr event_type \<Rightarrow>
     (case py_contains ''challenge'' body of
        Inl e \<Rightarrow> (Inl e, tr)
      | Inr True \<Rightarrow> (Inr body, tr)
      | Inr False \<Rightarrow>
          if event_type = JStr ''create_pulse'' \<or> event_type = JStr ''update_column_value''
          then (case and_then (py_get body ''event'' (JObj []))
                       (\<lambda>event. py_get event ''parentItemId'' JNull) of
                  Inl e \<Rightarrow> (Inl e, tr)
                | Inr parent_item_id \<Rightarrow>
                    (case (if truthy parent_item_id
                           then sync_subitem_with_parent env body tr
                           else process_date_automation env body tr) of
                       (Inl e, tr') \<Rightarrow> (Inl e, tr')
                     | (Inr u, tr') \<Rightarrow> (Inr success, tr')))
          else (Inr success, tr))))"

text \<open>Lines 102 to 171: line 159 catches every exception of the body, also the
  \<open>HTTPException\<close> of line 127, and the handler returns a dict.\<close>

definition monday_webhook ::
    "env \<Rightarrow> inbound \<Rightarrow> request list \<Rightarrow> (exn + json) \<times> request list" where
  "monday_webhook env req tr =
     (case webhook_try env req tr of
        (Inl e, tr') \<Rightarrow> (Inr (error_reply env e), tr')
      | (Inr reply, tr') \<Rightarrow> (Inr reply, tr'))"

text \<open>Lines 91 to 99.\<close>

definition root_webhook ::
    "env \<Rightarrow> inbound \<Rightarrow> request list \<Rightarrow> (exn + json) \<times> request list" where
  "root_webhook env req tr = monday_webhook env req tr"

text \<open>The status the framework answers with: 200 for a returned dict, the status of a
  \<open>HTTPException\<close> that leaves the handler, 500 for any other exception.\<close>

definition http_status :: "exn + json \<Rightarrow> int" where
  "http_status outcome =
     (case outcome of
        Inr reply \<Rightarrow> 200
      | Inl (HTTPException code detail) \<Rightarrow> code
      | Inl e \<Rightarrow> 500)"

section \<open>Responses the claims speak of, and example runs\<close>

text \<open>An upstream failure in the words of the specification: a status other than 200,
  or a body whose \<open>errors\<close> entry is a non-empty array.\<close>

definition upstream_failure :: "response \<Rightarrow> bool" where
  "upstream_failure r =
     (status_code r \<noteq> 200 \<or>
      (case resp_json r of
         Inr (JObj kvs) \<Rightarrow> (case map_of kvs ''errors'' of Some (JArr (e # es)) \<Rightarrow> True | _ \<Rightarrow> False)
       | _ \<Rightarrow> False))"

text \<open>The mutation requests of a trace.\<close>

definition mutations :: "request list \<Rightarrow> request list" where
  "mutations tr = filter (\<lambda>rq. fst rq = ChangeColumnValue \<or> fst rq = UpdateSubitemDate) tr"

text \<open>Concrete payloads, answers of the remote service and environments, for running
  the functions above.\<close>

definition reply_200 :: "json \<Rightarrow> post_result" where
  "reply_200 j = Response \<lparr>status_code = 200, resp_text = [], resp_json = Inr j\<rparr>"

definition reply_500 :: post_result where
  "reply_500 = Response \<lparr>status_code = 500, resp_text = ''Internal Server Error'',
                          resp_json = Inl ''Expecting value''\<rparr>"

definition mutation_answer :: json where
  "mutation_answer = JObj [(''data'', JObj [(''change_column_value'', JObj [(''id'', JStr ''11'')])])]"

definition remote_by_query :: "json \<Rightarrow> json \<Rightarrow> json \<Rightarrow> request list \<Rightarrow> request \<Rightarrow> post_result" where
  "remote_by_query items_a parent_a subitem_a tr rq =
     reply_200 (case fst rq of
                  ItemsQuery i \<Rightarrow> items_a
                | GetParentItem \<Rightarrow> parent_a
                | GetSubItem \<Rightarrow> subitem_a
                | ChangeColumnValue \<Rightarrow> mutation_answer
                | UpdateSubitemDate \<Rightarrow> mutation_answer)"

definition example_env :: "(request list \<Rightarrow> request \<Rightarrow> post_result) \<Rightarrow> env" where
  "example_env remote =
     \<lparr>MONDAY_API_KEY = Some ''secret'', requests_post = remote, today_year = 2026,
      str_exn = (\<lambda>e. case e of HTTPException code detail \<Rightarrow> detail | _ \<Rightarrow> ''error''),
      format_exc = (\<lambda>e. ''Traceback (most recent call last)''),
      now_isoformat = ''2026-11-03T10:00:00''\<rparr>"

definition date_2024 :: json where
  "date_2024 = JStr (json_dumps_date ''2024-05-01'')"

definition two_subitems :: "json list" where
  "two_subitems =
     [JObj [(''id'', JStr ''11''), (''name'', JStr ''A''), (''board'', JObj [(''id'', JStr ''900'')])],
      JObj [(''id'', JStr ''12''), (''name'', JStr ''B''), (''board'', JObj [(''id'', JStr ''901'')])]]"

definition subitem_without_board :: "json list" where
  "subitem_without_board = [JObj [(''id'', JStr ''11''), (''name'', JStr ''A'')]]"

definition date_column_of :: "json \<Rightarrow> json" where
  "date_column_of v = JObj [(''value'', v), (''text'', JStr ''May 1'')]"

definition parent_of :: "json \<Rightarrow> json list \<Rightarrow> json" where
  "parent_of v subs =
     JObj [(''name'', JStr ''Campaign''), (''column_values'', JArr [date_column_of v]),
           (''subitems'', JArr subs)]"

definition items_answer :: "json \<Rightarrow> json list \<Rightarrow> json" where
  "items_answer v subs = JObj [(''data'', JObj [(''items'', JArr [parent_of v subs])])]"

definition parent_column :: "json \<Rightarrow> json" where
  "parent_column v = JObj [(''id'', JStr ''date7''), (''type'', JStr ''date''), (''value'', v)]"

definition parent_answer :: "json \<Rightarrow> json" where
  "parent_answer v =
     JObj [(''data'', JObj [(''items'', JArr [
       JObj [(''id'', JStr ''1''), (''name'', JStr ''Campaign''),
             (''column_values'', JArr [parent_column v])]])])]"

definition subitem_column :: json where
  "subitem_column =
     JObj [(''id'', JStr ''date_mkn2am1b''), (''type'', JStr ''date''), (''value'', JNull)]"

definition subitem_answer :: json where
  "subitem_answer =
     JObj [(''data'', JObj [(''items'', JArr [
       JObj [(''id'', JStr ''11''), (''name'', JStr ''A''),
             (''column_values'', JArr [subitem_column])]])])]"

definition remote_fails :: "request list \<Rightarrow> request \<Rightarrow> post_result" where
  "remote_fails tr rq = reply_500"


definition env_fails :: env where
  "env_fails = example_env remote_fails"







definition env_two_subitems :: env where
  "env_two_subitems =
     example_env (remote_by_query (items_answer date_2024 two_subitems)
                    (parent_answer date_2024) subitem_answer)"

definition env_null_date :: env where
  "env_null_date =
     example_env (remote_by_query (items_answer JNull two_subitems)
                    (parent_answer JNull) subitem_answer)"

definition env_subitem_without_board :: env where
  "env_subitem_without_board =
     example_env (remote_by_query (items_answer date_2024 subitem_without_board)
                    (parent_answer date_2024) subitem_answer)"

definition update_event :: json where
  "update_event =
     JObj [(''type'', JStr ''update_column_value''), (''pulseId'', JInt 1), (''boardId'', JInt 500)]"

definition parent_update_event :: json where
  "parent_update_event = JObj [(''event'', update_event)]"

definition creation_event :: json where
  "creation_event =
     JObj [(''type'', JStr ''create_pulse''), (''pulseId'', JInt 11), (''boardId'', JInt 900),
           (''parentItemId'', JInt 1), (''parentItemBoardId'', JInt 500)]"

definition subitem_event :: json where
  "subitem_event = JObj [(''event'', creation_event)]"

definition creation_event_without_board :: json where
  "creation_event_without_board =
     JObj [(''type'', JStr ''create_pulse''), (''pulseId'', JInt 11),
           (''parentItemId'', JInt 1), (''parentItemBoardId'', JInt 500)]"

definition subitem_event_without_board :: json where
  "subitem_event_without_board = JObj [(''event'', creation_event_without_board)]"

definition challenge_payload :: json where
  "challenge_payload = JObj [(''challenge'', JStr ''3eZbrw1aBm2rZgRNFdxV2595E9CY3gmdALWMmHkvFXO7tYXAYM8P'')]"

definition challenge_with_null_event :: json where
  "challenge_with_null_event = JObj [(''challenge'', JStr ''abc''), (''event'', JNull)]"

definition inbound_json :: "json \<Rightarrow> inbound" where
  "inbound_json body = \<lparr>request_json = Inr body, raw_body_json = Inr body\<rparr>"

definition inbound_garbage :: inbound where
  "inbound_garbage = \<lparr>request_json = Inl ''Expecting value: line 1 column 1 (char 0)'',
                       raw_body_json = Inl ''Expecting value: line 1 column 1 (char 0)''\<rparr>"

section \<open>Facts about the building blocks\<close>

lemma and_then_simps [simp]: "and_then (Inl e) f = Inl e" "and_then (Inr v) f = f v"
  by (simp_all add: and_then_def)

lemma and_then_raises: "(\<And>v. \<exists>e. f v = Inl e) \<Longrightarrow> \<exists>e. and_then m f = Inl e"
  by (cases m) simp_all

lemma py_get_Inr: "py_get d k dflt = Inr v \<Longrightarrow> \<exists>kvs. d = JObj kvs"
  by (cases d) simp_all

text \<open>A query that returns has been sent, so the key is configured.\<close>

lemma execute_Inr:
  assumes "execute_monday_query env q v tr = (Inr x, tr')"
  shows "key_configured env \<and> tr' = tr @ [(q, v)]"
  using assms by (auto simp: execute_monday_query_def split: if_splits post_result.splits)

lemma snd_execute: "key_configured env \<Longrightarrow> snd (execute_monday_query env q v tr) = tr @ [(q, v)]"
  by (simp add: execute_monday_query_def split: post_result.splits)

lemma check_response_errors_key:
  assumes "resp_json r = Inr (JObj kvs)" and "map_of kvs ''errors'' = Some errors"
  shows "\<exists>e. check_response r = Inl e"
proof (cases "status_code r = 200")
  case False
  then show ?thesis by (simp add: check_response_def)
next
  case True
  have "\<exists>e. and_then (py_iter errors) (\<lambda>errs.
          and_then (error_messages errs) (\<lambda>msgs.
          and_then (py_join '', '' msgs) (\<lambda>joined.
            Inl (HTTPException 400 (''Monday.com API returned errors: '' @ joined))))) = Inl e"
    by (intro and_then_raises) simp
  with True assms show ?thesis by (simp add: check_response_def)
qed

lemma upstream_failure_raises:
  assumes "upstream_failure r"
  shows "\<exists>e. check_response r = Inl e"
proof (cases "status_code r = 200")
  case False
  then show ?thesis by (simp add: check_response_def)
next
  case True
  with assms obtain kvs e es where "resp_json r = Inr (JObj kvs)"
    and "map_of kvs ''errors'' = Some (JArr (e # es))"
    by (auto simp: upstream_failure_def split: sum.splits json.splits option.splits list.splits)
  then show ?thesis by (rule check_response_errors_key)
qed

lemma truthy_with_fallback: "truthy (with_fallback env v)"
  by (simp add: with_fallback_def json_dumps_date_def)

text \<open>The decimal text of a year of four digits.\<close>

lemma decimal_digit: "n < 10 \<Longrightarrow> decimal n = [''0123456789'' ! n]"
  by (subst decimal.simps) simp

lemma decimal_step: "10 \<le> n \<Longrightarrow> decimal n = decimal (n div 10) @ [''0123456789'' ! (n mod 10)]"
  by (subst decimal.simps) simp

lemma decimal_shift:
  assumes "1 \<le> k" and "d < 10"
  shows "decimal (10 * k + d) = decimal k @ [''0123456789'' ! d]"
proof -
  from assms have "(10 * k + d) div 10 = k" and "(10 * k + d) mod 10 = d" and "10 \<le> 10 * k + d"
    by simp_all
  with decimal_step [of "10 * k + d"] show ?thesis by simp
qed

lemma decimal_four_digits:
  assumes "1 \<le> a" and "a < 10" and "b < 10" and "c < 10" and "d < 10"
  shows "decimal (1000 * a + 100 * b + 10 * c + d) =
           [''0123456789'' ! a, ''0123456789'' ! b, ''0123456789'' ! c, ''0123456789'' ! d]"
proof -
  have "1000 * a + 100 * b + 10 * c + d = 10 * (10 * (10 * a + b) + c) + d"
    by simp
  moreover have "decimal (10 * (10 * (10 * a + b) + c) + d) =
      decimal (10 * (10 * a + b) + c) @ [''0123456789'' ! d]"
    using assms by (intro decimal_shift) simp_all
  moreover have "decimal (10 * (10 * a + b) + c) = decimal (10 * a + b) @ [''0123456789'' ! c]"
    using assms by (intro decimal_shift) simp_all
  moreover have "decimal (10 * a + b) = decimal a @ [''0123456789'' ! b]"
    using assms by (intro decimal_shift) simp_all
  moreover have "decimal a = [''0123456789'' ! a]"
    using assms by (simp add: decimal_digit)
  ultimately show ?thesis by simp
qed




section \<open>The parent-update path\<close>

text \<open>The loop sends one mutation for each subitem whose id and board id are both
  truthy, in order, whatever the remote service answers.\<close>

lemma update_subitems_trace:
  assumes "key_configured env"
  shows "map subitem_ids subitems = map Inr ids \<Longrightarrow>
         update_subitems env date_value subitems tr =
           (Inr (), tr @ map (\<lambda>(i, b). (ChangeColumnValue, Some (change_variables b i date_value)))
                          (filter (\<lambda>(i, b). truthy i \<and> truthy b) ids))"
proof (induction subitems arbitrary: ids tr)
  case Nil
  then show ?case by simp
next
  case (Cons s rest)
  then obtain i b ids' where ids: "ids = (i, b) # ids'" and s: "subitem_ids s = Inr (i, b)"
    and rest: "map subitem_ids rest = map Inr ids'"
    by (cases ids) auto
  show ?case
    using Cons.IH [OF rest] s assms by (simp add: ids snd_execute)
qed

lemma sync_date_column_skip:
  assumes "py_get date_column ''value'' JNull = Inr v" and "\<not> truthy v \<or> v = JStr ''null''"
  shows "sync_date_column env parent date_column tr = (Inr (), tr)"
proof -
  from py_get_Inr [OF assms(1)] obtain kvs where "date_column = JObj kvs" ..
  with assms show ?thesis by (auto simp: sync_date_column_def)
qed

lemma item_id_of_obj: "\<exists>i. item_id_of (JObj ev) = Inr i"
  by (simp add: item_id_of_def)

lemma process_date_automation_returns:
  assumes "py_get webhook_data ''event'' (JObj []) = Inr (JObj ev)"
  shows "fst (process_date_automation env webhook_data tr) = Inr ()"
proof -
  obtain i where "item_id_of (JObj ev) = Inr i" using item_id_of_obj by blast
  with assms show ?thesis by (simp add: process_date_automation_def)
qed

text \<open>The run of the function when the date value passes line 229 and each subitem
  yields an id and a board id.\<close>

lemma process_date_automation_trace:
  assumes "py_get webhook_data ''event'' (JObj []) = Inr event"
    and "item_id_of event = Inr item_id" and "truthy item_id"
    and "execute_monday_query env (ItemsQuery item_id) None tr = (Inr result, tr1)"
    and "parent_date_column result = Inr (Some (parent, date_column))"
    and "py_get date_column ''value'' JNull = Inr date_value"
    and "truthy date_value" and "date_value \<noteq> JStr ''null''"
    and "py_get parent ''subitems'' (JArr []) = Inr (JArr subitems)"
    and "map subitem_ids subitems = map Inr ids"
  shows "process_date_automation env webhook_data tr =
           (Inr (), tr @ (ItemsQuery item_id, None) #
                      map (\<lambda>(i, b). (ChangeColumnValue, Some (change_variables b i date_value)))
                        (filter (\<lambda>(i, b). truthy i \<and> truthy b) ids))"
proof -
  from execute_Inr [OF assms(4)]
  have key: "key_configured env" and tr1: "tr1 = tr @ [(ItemsQuery item_id, None)]" by simp_all
  from py_get_Inr [OF assms(6)] obtain kvs where col: "date_column = JObj kvs" ..
  have "sync_date_column env parent date_column tr1 =
          (Inr (), tr1 @ map (\<lambda>(i, b). (ChangeColumnValue, Some (change_variables b i date_value)))
                          (filter (\<lambda>(i, b). truthy i \<and> truthy b) ids))"
  proof (cases subitems)
    case Nil
    with assms(10) have "ids = []" by simp
    with Nil assms(6-9) col show ?thesis by (simp add: sync_date_column_def)
  next
    case (Cons s rest)
    with assms(6-9) col update_subitems_trace [OF key assms(10)] show ?thesis
      by (simp add: sync_date_column_def)
  qed
  with assms(4,5) have "process_date_try env item_id tr =
          (Inr (), tr1 @ map (\<lambda>(i, b). (ChangeColumnValue, Some (change_variables b i date_value)))
                          (filter (\<lambda>(i, b). truthy i \<and> truthy b) ids))"
    by (simp add: process_date_try_def)
  with assms(1-3) tr1 show ?thesis
    by (simp add: process_date_automation_def)
qed

lemma mutations_append: "mutations (xs @ ys) = mutations xs @ mutations ys"
  by (simp add: mutations_def)

lemma mutations_change:
  "mutations (map (\<lambda>(i, b). (ChangeColumnValue, Some (change_variables b i v))) ids) =
     map (\<lambda>(i, b). (ChangeColumnValue, Some (change_variables b i v))) ids"
  by (induction ids) (auto simp: mutations_def)

text \<open>
  Claim C1, as amended. Take an event with an item id, for which the fetch returns a
  parent item whose date value is truthy and not the string \<open>null\<close>, with a list of
  subitems, each an object whose \<open>board\<close> entry is an object or absent (so that lines
  251 to 253 read an id and a board id from it, \<open>None\<close> when missing). Then
  \<open>process_date_automation\<close> sends, after the fetch, exactly one
  \<open>change_column_value\<close> mutation for each subitem whose id and board id are both
  truthy, in the order of the list, with that subitem's board id as \<open>boardId\<close> and
  the parent's raw date value as \<open>value\<close>; line 255 skips a subitem that lacks
  either. With N subitems that all have both, that is N calls. The \<open>variables\<close> of
  each call are written out: \<open>boardId\<close>, \<open>itemId\<close>, the fixed \<open>columnId\<close> and
  \<open>value\<close>.
\<close>

theorem one_mutation_per_subitem:
  assumes "py_get webhook_data ''event'' (JObj []) = Inr event"
    and "item_id_of event = Inr item_id" and "truthy item_id"
    and "execute_monday_query env (ItemsQuery item_id) None tr = (Inr result, tr1)"
    and "parent_date_column result = Inr (Some (parent, date_column))"
    and "py_get date_column ''value'' JNull = Inr date_value"
    and "truthy date_value" and "date_value \<noteq> JStr ''null''"
    and "py_get parent ''subitems'' (JArr []) = Inr (JArr subitems)"
    and "map subitem_ids subitems = map Inr ids"
  shows "process_date_automation env webhook_data tr =
           (Inr (), tr @ (ItemsQuery item_id, None) #
                      map (\<lambda>(i, b). (ChangeColumnValue,
                                       Some (JObj [(''boardId'', b), (''itemId'', i),
                                                   (''columnId'', JStr ''date_mkn2am1b''),
                                                   (''value'', date_value)])))
                        (filter (\<lambda>(i, b). truthy i \<and> truthy b) ids))
       \<and> (list_all (\<lambda>(i, b). truthy i \<and> truthy b) ids \<longrightarrow>
            length (mutations (snd (process_date_automation env webhook_data tr))) =
              length (mutations tr) + length subitems)"
proof -
  let ?sent = "map (\<lambda>(i, b). (ChangeColumnValue, Some (change_variables b i date_value)))
                 (filter (\<lambda>(i, b). truthy i \<and> truthy b) ids)"
  have run: "process_date_automation env webhook_data tr =
               (Inr (), tr @ (ItemsQuery item_id, None) # ?sent)"
    using process_date_automation_trace [OF assms] .
  have len: "length ids = length subitems"
    using assms(10) by (metis length_map)
  have "mutations (tr @ (ItemsQuery item_id, None) # ?sent) = mutations tr @ ?sent"
    using mutations_change [of date_value "filter (\<lambda>(i, b). truthy i \<and> truthy b) ids"]
    by (simp add: mutations_append) (simp add: mutations_def)
  moreover have "list_all (\<lambda>(i, b). truthy i \<and> truthy b) ids \<Longrightarrow>
      filter (\<lambda>(i, b). truthy i \<and> truthy b) ids = ids"
    by (simp add: list_all_iff)
  ultimately have count: "list_all (\<lambda>(i, b). truthy i \<and> truthy b) ids \<longrightarrow>
      length (mutations (snd (process_date_automation env webhook_data tr))) =
        length (mutations tr) + length subitems"
    using run len by auto
  have "?sent = map (\<lambda>(i, b). (ChangeColumnValue,
                                 Some (JObj [(''boardId'', b), (''itemId'', i),
                                             (''columnId'', JStr ''date_mkn2am1b''),
                                             (''value'', date_value)])))
                  (filter (\<lambda>(i, b). truthy i \<and> truthy b) ids)"
    by (simp add: change_variables_def)
  with run count show ?thesis
    by simp
qed

theorem one_mutation_per_subitem_witness:
  "process_date_automation env_two_subitems parent_update_event [] =
     (Inr (), [(ItemsQuery (JInt 1), None),
               (ChangeColumnValue,
                Some (JObj [(''boardId'', JStr ''900''), (''itemId'', JStr ''11''),
                            (''columnId'', JStr ''date_mkn2am1b''), (''value'', date_2024)])),
               (ChangeColumnValue,
                Some (JObj [(''boardId'', JStr ''901''), (''itemId'', JStr ''12''),
                            (''columnId'', JStr ''date_mkn2am1b''), (''value'', date_2024)]))])
   \<and> length (mutations (snd (process_date_automation env_two_subitems parent_update_event []))) =
       length two_subitems"
proof -
  have h1: "py_get parent_update_event ''event'' (JObj []) = Inr update_event"
    by (simp add: parent_update_event_def)
  have h2: "item_id_of update_event = Inr (JInt 1)"
    by (simp add: item_id_of_def update_event_def)
  have h3: "truthy (JInt 1)"
    by simp
  have h4: "execute_monday_query env_two_subitems (ItemsQuery (JInt 1)) None [] =
              (Inr (items_answer date_2024 two_subitems), [(ItemsQuery (JInt 1), None)])"
    by (simp add: execute_monday_query_def env_two_subitems_def example_env_def key_configured_def
        remote_by_query_def reply_200_def check_response_def items_answer_def)
  have h5: "parent_date_column (items_answer date_2024 two_subitems) =
              Inr (Some (parent_of date_2024 two_subitems, date_column_of date_2024))"
    by (simp add: parent_date_column_def items_answer_def parent_of_def date_column_of_def)
  have h6: "py_get (date_column_of date_2024) ''value'' JNull = Inr date_2024"
    by (simp add: date_column_of_def)
  have h7: "truthy date_2024" and h8: "date_2024 \<noteq> JStr ''null''"
    by (simp_all add: date_2024_def json_dumps_date_def)
  have h9: "py_get (parent_of date_2024 two_subitems) ''subitems'' (JArr []) = Inr (JArr two_subitems)"
    by (simp add: parent_of_def)
  have h10: "map subitem_ids two_subitems =
               map Inr [(JStr ''11'', JStr ''900''), (JStr ''12'', JStr ''901'')]"
    by (simp add: two_subitems_def subitem_ids_def)
  have h11: "list_all (\<lambda>(i, b). truthy i \<and> truthy b)
               [(JStr ''11'', JStr ''900''), (JStr ''12'', JStr ''901'')]"
    by simp
  have h12: "mutations [] = []"
    by (simp add: mutations_def)
  note run = one_mutation_per_subitem [OF h1 h2 h3 h4 h5 h6 h7 h8 h9 h10]
  from run have trace: "process_date_automation env_two_subitems parent_update_event [] =
     (Inr (), [(ItemsQuery (JInt 1), None),
               (ChangeColumnValue,
                Some (JObj [(''boardId'', JStr ''900''), (''itemId'', JStr ''11''),
                            (''columnId'', JStr ''date_mkn2am1b''), (''value'', date_2024)])),
               (ChangeColumnValue,
                Some (JObj [(''boardId'', JStr ''901''), (''itemId'', JStr ''12''),
                            (''columnId'', JStr ''date_mkn2am1b''), (''value'', date_2024)]))])"
    by simp
  from run h11 have "length (mutations (snd (process_date_automation env_two_subitems
                                               parent_update_event []))) =
      length (mutations []) + length two_subitems"
    by blast
  with trace h12 show ?thesis
    by simp
qed

text \<open>
  Claim C1 as stated fails: the parent has a date value and a list of one subitem, the
  subitem has no board, and no mutation is sent.
\<close>

theorem skipped_subitem_counterexample:
  "snd (process_date_automation env_subitem_without_board parent_update_event []) =
     [(ItemsQuery (JInt 1), None)]
   \<and> length (mutations (snd (process_date_automation env_subitem_without_board parent_update_event [])))
       \<noteq> length subitem_without_board"
proof -
  have h1: "py_get parent_update_event ''event'' (JObj []) = Inr update_event"
    by (simp add: parent_update_event_def)
  have h2: "item_id_of update_event = Inr (JInt 1)"
    by (simp add: item_id_of_def update_event_def)
  have h4: "execute_monday_query env_subitem_without_board (ItemsQuery (JInt 1)) None [] =
              (Inr (items_answer date_2024 subitem_without_board), [(ItemsQuery (JInt 1), None)])"
    by (simp add: execute_monday_query_def env_subitem_without_board_def example_env_def
        key_configured_def remote_by_query_def reply_200_def check_response_def items_answer_def)
  have h5: "parent_date_column (items_answer date_2024 subitem_without_board) =
              Inr (Some (parent_of date_2024 subitem_without_board, date_column_of date_2024))"
    by (simp add: parent_date_column_def items_answer_def parent_of_def date_column_of_def)
  have h6: "sync_date_column env_subitem_without_board (parent_of date_2024 subitem_without_board)
              (date_column_of date_2024) [(ItemsQuery (JInt 1), None)] =
              (Inr (), [(ItemsQuery (JInt 1), None)])"
    by (simp add: sync_date_column_def date_column_of_def parent_of_def date_2024_def
        json_dumps_date_def subitem_without_board_def subitem_ids_def)
  have "process_date_automation env_subitem_without_board parent_update_event [] =
          (Inr (), [(ItemsQuery (JInt 1), None)])"
    using h1 h2 h4 h5 h6 by (simp add: process_date_automation_def process_date_try_def)
  then show ?thesis
    by (simp add: mutations_def subitem_without_board_def)
qed

text \<open>
  Claim C8. When the date value read from the fetched parent's date column is absent,
  falsy or the string \<open>null\<close>, \<open>process_date_automation\<close> sends the fetch and
  nothing else: no mutation is added to the trace.
\<close>

theorem null_date_no_mutation:
  assumes "py_get webhook_data ''event'' (JObj []) = Inr event"
    and "item_id_of event = Inr item_id" and "truthy item_id"
    and "execute_monday_query env (ItemsQuery item_id) None tr = (Inr result, tr1)"
    and "parent_date_column result = Inr (Some (parent, date_column))"
    and "py_get date_column ''value'' JNull = Inr date_value"
    and "\<not> truthy date_value \<or> date_value = JStr ''null''"
  shows "process_date_automation env webhook_data tr = (Inr (), tr @ [(ItemsQuery item_id, None)])
       \<and> mutations (snd (process_date_automation env webhook_data tr)) = mutations tr"
proof -
  from execute_Inr [OF assms(4)] have tr1: "tr1 = tr @ [(ItemsQuery item_id, None)]" by simp
  have "process_date_try env item_id tr = (Inr (), tr1)"
    using assms(4,5) sync_date_column_skip [OF assms(6,7)] by (simp add: process_date_try_def)
  with assms(1-3) tr1 show ?thesis
    by (simp add: process_date_automation_def mutations_def)
qed

theorem null_date_no_mutation_witness:
  "process_date_automation env_null_date parent_update_event [] =
     (Inr (), [(ItemsQuery (JInt 1), None)])"
proof -
  have h1: "py_get parent_update_event ''event'' (JObj []) = Inr update_event"
    by (simp add: parent_update_event_def)
  have h2: "item_id_of update_event = Inr (JInt 1)"
    by (simp add: item_id_of_def update_event_def)
  have h3: "truthy (JInt 1)"
    by simp
  have h4: "execute_monday_query env_null_date (ItemsQuery (JInt 1)) None [] =
              (Inr (items_answer JNull two_subitems), [(ItemsQuery (JInt 1), None)])"
    by (simp add: execute_monday_query_def env_null_date_def example_env_def key_configured_def
        remote_by_query_def reply_200_def check_response_def items_answer_def)
  have h5: "parent_date_column (items_answer JNull two_subitems) =
              Inr (Some (parent_of JNull two_subitems, date_column_of JNull))"
    by (simp add: parent_date_column_def items_answer_def parent_of_def date_column_of_def)
  have h6: "py_get (date_column_of JNull) ''value'' JNull = Inr JNull"
    by (simp add: date_column_of_def)
  have h7: "\<not> truthy JNull \<or> JNull = JStr ''null''"
    by simp
  from null_date_no_mutation [OF h1 h2 h3 h4 h5 h6 h7] show ?thesis
    by simp
qed

section \<open>The subitem-creation path\<close>

text \<open>
  Claim C9. When the event lacks one of the four identifiers (the entry is absent or
  falsy), \<open>sync_subitem_with_parent\<close> returns normally and sends nothing.
\<close>

theorem missing_id_no_calls:
  assumes "py_get webhook_data ''event'' (JObj []) = Inr event"
    and "required_ids event = Inr (subitem_id, subitem_board_id, parent_item_id, parent_board_id)"
    and "\<not> (truthy subitem_id \<and> truthy subitem_board_id \<and> truthy parent_item_id
             \<and> truthy parent_board_id)"
  shows "sync_subitem_with_parent env webhook_data tr = (Inr (), tr)"
  using assms by (auto simp: sync_subitem_with_parent_def)

theorem missing_id_no_calls_witness:
  "sync_subitem_with_parent env_fails subitem_event_without_board [] = (Inr (), [])"
proof -
  have h1: "py_get subitem_event_without_board ''event'' (JObj []) = Inr creation_event_without_board"
    by (simp add: subitem_event_without_board_def)
  have h2: "required_ids creation_event_without_board = Inr (JInt 11, JNull, JInt 1, JInt 500)"
    by (simp add: required_ids_def creation_event_without_board_def)
  have h3: "\<not> (truthy (JInt 11) \<and> truthy JNull \<and> truthy (JInt 1) \<and> truthy (JInt 500))"
    by simp
  show ?thesis
    by (rule missing_id_no_calls [OF h1 h2 h3])
qed

text \<open>What the function raises is what one of its two lookups raises.\<close>

lemma sync_subitem_outcome:
  assumes "py_get webhook_data ''event'' (JObj []) = Inr event"
    and "required_ids event = Inr (sid, bid, pid, pbid)"
  shows "fst (sync_subitem_with_parent env webhook_data tr) =
           (if truthy sid \<and> truthy bid \<and> truthy pid \<and> truthy pbid
            then (case execute_monday_query env GetParentItem (Some (JObj [(''itemId'', pid)])) tr of
                    (Inl e, tr1) \<Rightarrow> Inl e
                  | (Inr parent_result, tr1) \<Rightarrow>
                      (case fst (execute_monday_query env GetSubItem
                                   (Some (JObj [(''itemId'', sid)])) tr1) of
                         Inl e \<Rightarrow> Inl e
                       | Inr subitem_result \<Rightarrow> Inr ()))
            else Inr ())"
  using assms by (simp add: sync_subitem_with_parent_def split: prod.splits sum.splits)

text \<open>When both lookups return and both date columns are located, one mutation is
  sent, with the parent's value or the fallback.\<close>

lemma sync_subitem_trace:
  assumes "py_get webhook_data ''event'' (JObj []) = Inr event"
    and "required_ids event = Inr (subitem_id, subitem_board_id, parent_item_id, parent_board_id)"
    and "truthy subitem_id" and "truthy subitem_board_id"
    and "truthy parent_item_id" and "truthy parent_board_id"
    and "execute_monday_query env GetParentItem (Some (JObj [(''itemId'', parent_item_id)])) tr
           = (Inr parent_result, tr1)"
    and "execute_monday_query env GetSubItem (Some (JObj [(''itemId'', subitem_id)])) tr1
           = (Inr subitem_result, tr2)"
    and "located_columns parent_result subitem_result = Inr (Some (parent_date_col, subitem_date_col))"
    and "py_get parent_date_col ''value'' JNull = Inr parent_value"
    and "py_get subitem_date_col ''id'' JNull = Inr column_id"
  shows "sync_subitem_with_parent env webhook_data tr =
           (Inr (), tr2 @ [(UpdateSubitemDate,
                            Some (update_variables subitem_board_id subitem_id column_id
                                    (with_fallback env parent_value)))])"
proof -
  from execute_Inr [OF assms(7)] have key: "key_configured env" by simp
  have "sync_try env subitem_id subitem_board_id parent_result subitem_result tr2 =
          (Inr (), tr2 @ [(UpdateSubitemDate,
                            Some (update_variables subitem_board_id subitem_id column_id
                                    (with_fallback env parent_value)))])"
    using assms(9-11) key by (simp add: sync_try_def truthy_with_fallback snd_execute)
  with assms(1-8) show ?thesis
    by (simp add: sync_subitem_with_parent_def)
qed

text \<open>
  Claim C6. On the subitem-creation path, when the parent's date column is located (and
  the subitem's, so that a mutation is sent) and its value is empty or the string
  \<open>null\<close>, the mutation carries as \<open>value\<close> the text of the JSON object whose
  \<open>date\<close> is March 11 of the current year: for the year with the decimal digits
  a, b, c, d the text is \<open>{"date": "abcd-03-11"}\<close>.
\<close>

theorem fallback_march_11:
  assumes "py_get webhook_data ''event'' (JObj []) = Inr event"
    and "required_ids event = Inr (subitem_id, subitem_board_id, parent_item_id, parent_board_id)"
    and "truthy subitem_id" and "truthy subitem_board_id"
    and "truthy parent_item_id" and "truthy parent_board_id"
    and "execute_monday_query env GetParentItem (Some (JObj [(''itemId'', parent_item_id)])) tr
           = (Inr parent_result, tr1)"
    and "execute_monday_query env GetSubItem (Some (JObj [(''itemId'', subitem_id)])) tr1
           = (Inr subitem_result, tr2)"
    and "located_columns parent_result subitem_result = Inr (Some (parent_date_col, subitem_date_col))"
    and "py_get parent_date_col ''value'' JNull = Inr parent_value"
    and "py_get subitem_date_col ''id'' JNull = Inr column_id"
    and "\<not> truthy parent_value \<or> parent_value = JStr ''null''"
    and "today_year env = 1000 * a + 100 * b + 10 * c + d"
    and "1 \<le> a" and "a < 10" and "b < 10" and "c < 10" and "d < 10"
  shows \<open>sync_subitem_with_parent env webhook_data tr =
           (Inr (), tr2 @ [(UpdateSubitemDate,
                            Some (JObj [(''boardId'', subitem_board_id), (''itemId'', subitem_id),
                                        (''columnId'', column_id),
                                        (''value'', JStr (''{"date": "''
                                           @ [''0123456789'' ! a, ''0123456789'' ! b,
                                              ''0123456789'' ! c, ''0123456789'' ! d]
                                           @ ''-03-11"}''))]))])\<close>
proof -
  from assms(12) have "with_fallback env parent_value
      = JStr (json_dumps_date (strftime_march_11 (today_year env)))"
    by (auto simp: with_fallback_def)
  moreover have "strftime_march_11 (today_year env) =
      [''0123456789'' ! a, ''0123456789'' ! b, ''0123456789'' ! c, ''0123456789'' ! d] @ ''-03-11''"
    using decimal_four_digits [OF assms(14-18)] by (simp add: strftime_march_11_def assms(13))
  ultimately show ?thesis
    using sync_subitem_trace [OF assms(1-11)]
    by (simp add: update_variables_def json_dumps_date_def)
qed

theorem fallback_march_11_witness:
  \<open>sync_subitem_with_parent env_null_date subitem_event [] =
     (Inr (), [(GetParentItem, Some (JObj [(''itemId'', JInt 1)])),
               (GetSubItem, Some (JObj [(''itemId'', JInt 11)])),
               (UpdateSubitemDate,
                Some (JObj [(''boardId'', JInt 900), (''itemId'', JInt 11),
                            (''columnId'', JStr ''date_mkn2am1b''),
                            (''value'', JStr ''{"date": "2026-03-11"}'')]))])\<close>
proof -
  have h1: "py_get subitem_event ''event'' (JObj []) = Inr creation_event"
    by (simp add: subitem_event_def)
  have h2: "required_ids creation_event = Inr (JInt 11, JInt 900, JInt 1, JInt 500)"
    by (simp add: required_ids_def creation_event_def)
  have h3: "truthy (JInt 11)" and h4: "truthy (JInt 900)" and h5: "truthy (JInt 1)"
    and h6: "truthy (JInt 500)"
    by simp_all
  have h7: "execute_monday_query env_null_date GetParentItem (Some (JObj [(''itemId'', JInt 1)])) [] =
              (Inr (parent_answer JNull), [(GetParentItem, Some (JObj [(''itemId'', JInt 1)]))])"
    by (simp add: execute_monday_query_def env_null_date_def example_env_def key_configured_def
        remote_by_query_def reply_200_def check_response_def parent_answer_def)
  have h8: "execute_monday_query env_null_date GetSubItem (Some (JObj [(''itemId'', JInt 11)]))
              [(GetParentItem, Some (JObj [(''itemId'', JInt 1)]))] =
              (Inr subitem_answer, [(GetParentItem, Some (JObj [(''itemId'', JInt 1)])),
                                    (GetSubItem, Some (JObj [(''itemId'', JInt 11)]))])"
    by (simp add: execute_monday_query_def env_null_date_def example_env_def key_configured_def
        remote_by_query_def reply_200_def check_response_def subitem_answer_def)
  have h9: "located_columns (parent_answer JNull) subitem_answer =
              Inr (Some (parent_column JNull, subitem_column))"
    by (simp add: located_columns_def first_item_def find_date_col_def parent_answer_def
        subitem_answer_def parent_column_def subitem_column_def)
  have h10: "py_get (parent_column JNull) ''value'' JNull = Inr JNull"
    by (simp add: parent_column_def)
  have h11: "py_get subitem_column ''id'' JNull = Inr (JStr ''date_mkn2am1b'')"
    by (simp add: subitem_column_def)
  have h12: "\<not> truthy JNull \<or> JNull = JStr ''null''"
    by simp
  have h13: "today_year env_null_date = 1000 * 2 + 100 * 0 + 10 * 2 + 6"
    by (simp add: env_null_date_def example_env_def)
  have h14: "(1::nat) \<le> 2" and h15: "(2::nat) < 10" and h16: "(0::nat) < 10" and h17: "(6::nat) < 10"
    by simp_all
  from fallback_march_11 [OF h1 h2 h3 h4 h5 h6 h7 h8 h9 h10 h11 h12 h13 h14 h15 h16 h15 h17]
  show ?thesis
    by simp
qed



text \<open>
  Claim C4 does not hold of the code: the lookups of lines 315 and 336 are outside the
  \<open>try\<close>, so when the remote service answers the first lookup with status 500 the
  \<open>HTTPException\<close> leaves \<open>sync_subitem_with_parent\<close>.
\<close>

theorem lookup_failure_propagates:
  "sync_subitem_with_parent env_fails subitem_event [] =
     (Inl (HTTPException 500 ''Error from Monday.com API: Internal Server Error''),
      [(GetParentItem, Some (JObj [(''itemId'', JInt 1)]))])"
  by (simp add: sync_subitem_with_parent_def subitem_event_def creation_event_def required_ids_def
      execute_monday_query_def env_fails_def example_env_def key_configured_def
      remote_fails_def reply_500_def check_response_def)

section \<open>The webhook endpoint\<close>

text \<open>A handshake payload whose \<open>event\<close> entry is absent or an object is
  returned as it is, and nothing is sent.\<close>

lemma challenge_echo:
  assumes "parse_body req = Inr (JObj kvs)"
    and "map_of kvs ''challenge'' = Some c"
    and "map_of kvs ''event'' = None \<or> (\<exists>ev. map_of kvs ''event'' = Some (JObj ev))"
  shows "monday_webhook env req tr = (Inr (JObj kvs), tr)"
  using assms by (auto simp: monday_webhook_def webhook_try_def)

lemma challenge_echo_example:
  "monday_webhook env_fails (inbound_json challenge_payload) [] = (Inr challenge_payload, [])"
proof -
  let ?kvs = "[(''challenge'', JStr ''3eZbrw1aBm2rZgRNFdxV2595E9CY3gmdALWMmHkvFXO7tYXAYM8P'')]"
  have h1: "parse_body (inbound_json challenge_payload) = Inr (JObj ?kvs)"
    by (simp add: parse_body_def inbound_json_def challenge_payload_def)
  have h2: "map_of ?kvs ''challenge'' = Some (JStr ''3eZbrw1aBm2rZgRNFdxV2595E9CY3gmdALWMmHkvFXO7tYXAYM8P'')"
    by simp
  have h3: "map_of ?kvs ''event'' = None \<or> (\<exists>ev. map_of ?kvs ''event'' = Some (JObj ev))"
    by simp
  from challenge_echo [OF h1 h2 h3] show ?thesis
    by (simp add: challenge_payload_def)
qed

text \<open>
  Claim C2 does not hold of the code: lines 130 and 131 read the event type, which is
  used for logging and not before line 140, ahead of the challenge test that line 136
  makes. For a payload with a \<open>challenge\<close> key and a null \<open>event\<close> line 131
  raises \<open>AttributeError\<close>, line 159 catches it, and the handler answers with the
  error reply instead of the payload.
\<close>

theorem challenge_null_event_error_reply:
  "fst (monday_webhook env_fails (inbound_json challenge_with_null_event) []) =
     Inr (error_reply env_fails AttributeError)
   \<and> error_reply env_fails AttributeError \<noteq> challenge_with_null_event"
  by (simp add: monday_webhook_def webhook_try_def parse_body_def inbound_json_def
      challenge_with_null_event_def error_reply_def)

text \<open>
  Claim C3, as amended. A response with a status other than 200, or with a non-empty
  \<open>errors\<close> array, makes \<open>execute_monday_query\<close> raise. For a
  \<open>create_pulse\<close> or \<open>update_column_value\<close> event no exception leaves the
  handler. Its reply is the error reply exactly when one of the two lookups of the
  subitem-creation path raises; an exception of any call on the parent-update path, or
  of the mutation on the subitem-creation path, is caught inside the sync function and
  the handler replies with success.
\<close>

theorem upstream_failure_outcome:
  assumes "parse_body req = Inr (JObj kvs)"
    and "map_of kvs ''challenge'' = None"
    and "map_of kvs ''event'' = Some (JObj ev)"
    and "map_of ev ''type'' = Some t"
    and "t = JStr ''create_pulse'' \<or> t = JStr ''update_column_value''"
    and "required_ids (JObj ev) = Inr (sid, bid, pid, pbid)"
  shows "(\<forall>q v tr' r. requests_post env tr' (q, v) = Response r \<and> upstream_failure r \<longrightarrow>
            (\<exists>e. fst (execute_monday_query env q v tr') = Inl e))
       \<and> fst (monday_webhook env req tr) =
           (if truthy sid \<and> truthy bid \<and> truthy pid \<and> truthy pbid
            then (case execute_monday_query env GetParentItem (Some (JObj [(''itemId'', pid)])) tr of
                    (Inl e, tr1) \<Rightarrow> Inr (error_reply env e)
                  | (Inr parent_result, tr1) \<Rightarrow>
                      (case fst (execute_monday_query env GetSubItem
                                   (Some (JObj [(''itemId'', sid)])) tr1) of
                         Inl e \<Rightarrow> Inr (error_reply env e)
                       | Inr subitem_result \<Rightarrow> Inr success))
            else Inr success)"
proof
  show "\<forall>q v tr' r. requests_post env tr' (q, v) = Response r \<and> upstream_failure r \<longrightarrow>
            (\<exists>e. fst (execute_monday_query env q v tr') = Inl e)"
  proof (intro allI impI)
    fix q v tr' r
    assume a: "requests_post env tr' (q, v) = Response r \<and> upstream_failure r"
    then obtain e where "check_response r = Inl e" using upstream_failure_raises by blast
    with a show "\<exists>e. fst (execute_monday_query env q v tr') = Inl e"
      by (simp add: execute_monday_query_def)
  qed
next
  let ?body = "JObj kvs"
  have ev: "py_get ?body ''event'' (JObj []) = Inr (JObj ev)"
    using assms(3) by simp
  have pid: "py_get (JObj ev) ''parentItemId'' JNull = Inr pid"
    using assms(6) by (auto simp: required_ids_def and_then_def split: if_splits)
  have disp: "fst (monday_webhook env req tr) =
      (case fst (if truthy pid then sync_subitem_with_parent env ?body tr
                 else process_date_automation env ?body tr) of
         Inl e \<Rightarrow> Inr (error_reply env e) | Inr u \<Rightarrow> Inr success)"
    using assms(1-5) pid
    by (auto simp: monday_webhook_def webhook_try_def split: prod.splits sum.splits)
  show "fst (monday_webhook env req tr) =
           (if truthy sid \<and> truthy bid \<and> truthy pid \<and> truthy pbid
            then (case execute_monday_query env GetParentItem (Some (JObj [(''itemId'', pid)])) tr of
                    (Inl e, tr1) \<Rightarrow> Inr (error_reply env e)
                  | (Inr parent_result, tr1) \<Rightarrow>
                      (case fst (execute_monday_query env GetSubItem
                                   (Some (JObj [(''itemId'', sid)])) tr1) of
                         Inl e \<Rightarrow> Inr (error_reply env e)
                       | Inr subitem_result \<Rightarrow> Inr success))
            else Inr success)"
  proof (cases "truthy pid")
    case True
    with disp sync_subitem_outcome [OF ev assms(6), of env tr] show ?thesis
      by (simp split: prod.splits sum.splits)
  next
    case False
    with disp process_date_automation_returns [OF ev, of env tr] show ?thesis
      by simp
  qed
qed

theorem upstream_failure_outcome_witness:
  "(\<exists>e. fst (execute_monday_query env_fails GetParentItem (Some (JObj [(''itemId'', JInt 1)])) []) = Inl e)
   \<and> fst (monday_webhook env_fails (inbound_json subitem_event) []) =
       Inr (error_reply env_fails
              (HTTPException 500 ''Error from Monday.com API: Internal Server Error''))"
proof -
  let ?kvs = "[(''event'', creation_event)]"
  let ?ev = "[(''type'', JStr ''create_pulse''), (''pulseId'', JInt 11), (''boardId'', JInt 900),
              (''parentItemId'', JInt 1), (''parentItemBoardId'', JInt 500)]"
  let ?r = "\<lparr>status_code = 500, resp_text = ''Internal Server Error'',
             resp_json = Inl ''Expecting value''\<rparr>"
  have h1: "parse_body (inbound_json subitem_event) = Inr (JObj ?kvs)"
    by (simp add: parse_body_def inbound_json_def subitem_event_def)
  have h2: "map_of ?kvs ''challenge'' = None"
    by simp
  have h3: "map_of ?kvs ''event'' = Some (JObj ?ev)"
    by (simp add: creation_event_def)
  have h4: "map_of ?ev ''type'' = Some (JStr ''create_pulse'')"
    by simp
  have h5: "JStr ''create_pulse'' = JStr ''create_pulse'' \<or> JStr ''create_pulse'' = JStr ''update_column_value''"
    by simp
  have h6: "required_ids (JObj ?ev) = Inr (JInt 11, JInt 900, JInt 1, JInt 500)"
    by (simp add: required_ids_def)
  have h7: "requests_post env_fails [] (GetParentItem, Some (JObj [(''itemId'', JInt 1)])) = Response ?r
            \<and> upstream_failure ?r"
    by (simp add: env_fails_def example_env_def remote_fails_def reply_500_def upstream_failure_def)
  have h8: "execute_monday_query env_fails GetParentItem (Some (JObj [(''itemId'', JInt 1)])) [] =
              (Inl (HTTPException 500 ''Error from Monday.com API: Internal Server Error''),
               [(GetParentItem, Some (JObj [(''itemId'', JInt 1)]))])"
    by (simp add: execute_monday_query_def env_fails_def example_env_def key_configured_def
        remote_fails_def reply_500_def check_response_def)
  from upstream_failure_outcome [OF h1 h2 h3 h4 h5 h6, of env_fails "[]"] h7 h8 show ?thesis
    by simp
qed

text \<open>
  Claim C3 as stated fails: on the parent-update path the fetch is answered with status
  500 and raises, line 271 catches the exception, and the handler's reply is success,
  not the error reply.
\<close>

theorem parent_update_failure_counterexample:
  "fst (execute_monday_query env_fails (ItemsQuery (JInt 1)) None []) =
     Inl (HTTPException 500 ''Error from Monday.com API: Internal Server Error'')
   \<and> monday_webhook env_fails (inbound_json parent_update_event) [] =
       (Inr success, [(ItemsQuery (JInt 1), None)])
   \<and> success \<noteq> error_reply env_fails
                   (HTTPException 500 ''Error from Monday.com API: Internal Server Error'')"
proof -
  have h1: "execute_monday_query env_fails (ItemsQuery (JInt 1)) None [] =
              (Inl (HTTPException 500 ''Error from Monday.com API: Internal Server Error''),
               [(ItemsQuery (JInt 1), None)])"
    by (simp add: execute_monday_query_def env_fails_def example_env_def key_configured_def
        remote_fails_def reply_500_def check_response_def)
  have h2: "process_date_automation env_fails parent_update_event [] =
              (Inr (), [(ItemsQuery (JInt 1), None)])"
    using h1 by (simp add: process_date_automation_def process_date_try_def parent_update_event_def
        update_event_def item_id_of_def)
  have h3: "monday_webhook env_fails (inbound_json parent_update_event) [] =
              (Inr success, [(ItemsQuery (JInt 1), None)])"
    using h2 by (simp add: monday_webhook_def webhook_try_def parse_body_def inbound_json_def)
      (simp add: parent_update_event_def update_event_def)
  from h1 h3 show ?thesis
    by (simp add: success_def error_reply_def)
qed

text \<open>
  Claim C5 does not hold of the code: the \<open>HTTPException\<close> with status 400 that
  line 127 raises for a body that is not JSON is caught by line 159, and the handler
  returns the error reply, which the framework sends with status 200, as it does every
  other outcome of the handler.
\<close>

theorem unparseable_body_status:
  "monday_webhook env inbound_garbage tr =
     (Inr (error_reply env (HTTPException 400
              ''Invalid JSON payload: Expecting value: line 1 column 1 (char 0)'')), tr)
   \<and> http_status (fst (monday_webhook env req tr)) = 200"
proof
  show "monday_webhook env inbound_garbage tr =
     (Inr (error_reply env (HTTPException 400
              ''Invalid JSON payload: Expecting value: line 1 column 1 (char 0)'')), tr)"
    by (simp add: monday_webhook_def webhook_try_def parse_body_def inbound_garbage_def)
next
  show "http_status (fst (monday_webhook env req tr)) = 200"
    by (simp add: monday_webhook_def http_status_def split: prod.splits sum.splits)
qed

section \<open>The remote API client raises on an \<open>errors\<close> key\<close>




end
